theory Spec2Isabelle
  imports Main
begin

section \<open>Errors\<close>

text \<open>
  Every exception that the modelled part of \<^verbatim>\<open>api.py\<close> can raise is a value.
  The assertions of the source all raise Python's AssertionError; each assertion site gets a
  constructor of its own, named after the error kind that the specification gives it,
  and carrying the name that the assertion's message prints.
\<close>

datatype error =
    DuplicateVariable string
      \<comment> \<open>\<^verbatim>\<open>assert name not in simple\<close> in \<^verbatim>\<open>_simplify\<close>\<close>
  | InvalidConfiguration
      \<comment> \<open>\<^verbatim>\<open>assert overlapping or not center_as_origin\<close> in \<^verbatim>\<open>blockwise\<close>\<close>
  | DuplicateRegistration string
      \<comment> \<open>\<^verbatim>\<open>assert fname not in _gpu_funcs\<close> in \<^verbatim>\<open>_blockwise\<close>\<close>
  | UnevenBlockDimensions string
      \<comment> \<open>\<^verbatim>\<open>assert all(dim % 2 for dim in shape)\<close> in \<^verbatim>\<open>_gpu_func\<close>\<close>
  | IndivisibleBlockShape string
      \<comment> \<open>\<^verbatim>\<open>assert not any(dim1 % dim2 ...)\<close> in \<^verbatim>\<open>_gpu_func\<close>\<close>
  | InconsistentBlockCount string
      \<comment> \<open>\<^verbatim>\<open>assert count == blockcount\<close> in \<^verbatim>\<open>_gpu_func\<close>\<close>
  | NameError string
      \<comment> \<open>a global name that is read but never bound\<close>
  | BroadcastError
      \<comment> \<open>numpy's ValueError for operands that cannot be broadcast together\<close>
  | ZeroDivisionError
      \<comment> \<open>\<^verbatim>\<open>dim1 % dim2\<close> on Python integers with \<^verbatim>\<open>dim2 == 0\<close>\<close>

section \<open>Type Mapper: \<^verbatim>\<open>get_arg_type\<close>\<close>

text \<open>
  \<^verbatim>\<open>get_arg_type\<close> receives a class object and only asks \<^verbatim>\<open>issubclass\<close> of it
  and, for array types, reads \<^verbatim>\<open>__name__\<close>. A class is therefore modelled by its
  name and its method resolution order, the list of the classes it derives from,
  itself first; \<^verbatim>\<open>issubclass(c, d)\<close> holds when \<^verbatim>\<open>d\<close> occurs in the order of \<^verbatim>\<open>c\<close>.
  Classes are identified by their qualified names.
\<close>

record pyclass =
  cname :: string
  mro :: "string list"

definition issubclass :: "pyclass \<Rightarrow> string list \<Rightarrow> bool" where
  \<comment> \<open>the second argument is a tuple of classes, as in \<^verbatim>\<open>issubclass(arg, (int, numpy.int32))\<close>\<close>
  "issubclass arg classes = (\<exists>c \<in> set classes. c \<in> set (mro arg))"

definition get_arg_type :: "pyclass \<Rightarrow> error + string \<times> string" where
  "get_arg_type arg =
    (if issubclass arg [''ArrayType''] then Inr (''P'', cname arg)
     else if issubclass arg [''numpy.int8''] then Inr (''b'', ''char'')
     else if issubclass arg [''numpy.uint8''] then Inr (''B'', ''unsigned char'')
     else if issubclass arg [''numpy.int16''] then Inr (''h'', ''short'')
     else if issubclass arg [''numpy.uint16''] then Inr (''H'', ''unsigned short'')
     else if issubclass arg [''int'', ''numpy.int32''] then Inr (''i'', ''int'')
     else if issubclass arg [''numpy.uint32''] then Inr (''I'', ''unsigned int'')
     else if issubclass arg [''long'', ''numpy.int64''] then Inr (''l'', ''long'')
     else if issubclass arg [''numpy.uint64''] then Inr (''L'', ''unsigned long'')
     else if issubclass arg [''float'', ''numpy.float32''] then Inr (''f'', ''float'')
     else if issubclass arg [''numpy.float64''] then Inr (''d'', ''double'')
     else Inl (NameError ''tp''))"

text \<open>
  The last line of the source is \<^verbatim>\<open>raise ValueError("Unknown type '%r'" % tp)\<close>.
  The module binds no name \<^verbatim>\<open>tp\<close> (the parameter is \<^verbatim>\<open>arg\<close>), so evaluating the
  message raises NameError before the ValueError is built.
\<close>

subsection \<open>The classes of the source and of its environment\<close>

text \<open>The three classes that \<^verbatim>\<open>api.py\<close> declares.\<close>

definition ArrayType :: pyclass where
  "ArrayType = \<lparr>cname = ''ArrayType'', mro = [''ArrayType'', ''object'']\<rparr>"

definition IntArray :: pyclass where
  "IntArray = \<lparr>cname = ''IntArray'', mro = [''IntArray'', ''ArrayType'', ''object'']\<rparr>"

definition FloatArray :: pyclass where
  "FloatArray = \<lparr>cname = ''FloatArray'', mro = [''FloatArray'', ''ArrayType'', ''object'']\<rparr>"

text \<open>
  Built-in classes of Python 2 and scalar types of numpy. In numpy,
  \<^verbatim>\<open>float64\<close> derives from Python's \<^verbatim>\<open>float\<close> as well as from \<^verbatim>\<open>numpy.floating\<close>;
  \<^verbatim>\<open>float32\<close> and the fixed-width integers below derive from numpy's abstract
  classes only.
\<close>

definition py_int :: pyclass where
  "py_int = \<lparr>cname = ''int'', mro = [''int'', ''object'']\<rparr>"

definition py_long :: pyclass where
  "py_long = \<lparr>cname = ''long'', mro = [''long'', ''object'']\<rparr>"

definition py_float :: pyclass where
  "py_float = \<lparr>cname = ''float'', mro = [''float'', ''object'']\<rparr>"

definition py_str :: pyclass where
  "py_str = \<lparr>cname = ''str'', mro = [''str'', ''basestring'', ''object'']\<rparr>"

definition numpy_signed :: "string \<Rightarrow> pyclass" where
  "numpy_signed n = \<lparr>cname = n, mro = [''numpy.'' @ n, ''numpy.signedinteger'',
     ''numpy.integer'', ''numpy.number'', ''numpy.generic'', ''object'']\<rparr>"

definition numpy_unsigned :: "string \<Rightarrow> pyclass" where
  "numpy_unsigned n = \<lparr>cname = n, mro = [''numpy.'' @ n, ''numpy.unsignedinteger'',
     ''numpy.integer'', ''numpy.number'', ''numpy.generic'', ''object'']\<rparr>"

definition numpy_float32 :: pyclass where
  "numpy_float32 = \<lparr>cname = ''float32'', mro = [''numpy.float32'', ''numpy.floating'',
     ''numpy.inexact'', ''numpy.number'', ''numpy.generic'', ''object'']\<rparr>"

definition numpy_float64 :: pyclass where
  "numpy_float64 = \<lparr>cname = ''float64'', mro = [''numpy.float64'', ''numpy.floating'',
     ''numpy.inexact'', ''numpy.number'', ''numpy.generic'', ''float'', ''object'']\<rparr>"

section \<open>Device runtime and array descriptor\<close>

text \<open>
  The device runtime (pycuda's \<^verbatim>\<open>driver\<close>) is outside the repository. What the
  dispatcher does to it is recorded as a trace: each call of the runtime appends one
  event. A device pointer returned by an allocation is the position of the allocating
  event in the trace. The contents of the arrays themselves are left out.
\<close>

datatype payload = Pointer nat | Int32s "int list"

datatype kernel_arg = KPointer nat | KScalar int

datatype dev_event =
    MemAlloc nat
      \<comment> \<open>\<^verbatim>\<open>driver.mem_alloc(bytes)\<close>\<close>
  | ToDevice nat
      \<comment> \<open>\<^verbatim>\<open>driver.to_device(data)\<close>: allocates the array's bytes and uploads them\<close>
  | MemcpyHtoD nat nat payload
      \<comment> \<open>\<^verbatim>\<open>driver.memcpy_htod(pointer + offset, payload)\<close>\<close>
  | PreparedCall "kernel_arg list"
      \<comment> \<open>\<^verbatim>\<open>func.prepared_call(grid, *kernel_args)\<close>\<close>
  | FromDevice nat
      \<comment> \<open>\<^verbatim>\<open>driver.from_device_like(device_data, data)\<close>\<close>

type_synonym device = "dev_event list"

text \<open>
  A host array: its shape (a tuple of Python integers) and the byte width of one
  element. \<^verbatim>\<open>ndim\<close>, \<^verbatim>\<open>size\<close> and \<^verbatim>\<open>nbytes\<close> are derived as numpy derives them.
\<close>

record ndarray =
  shape :: "int list"
  itemsize :: nat

definition ndim :: "ndarray \<Rightarrow> nat" where
  "ndim a = length (shape a)"

definition ndarray_size :: "ndarray \<Rightarrow> int" where
  "ndarray_size a = prod_list (shape a)"

definition nbytes :: "ndarray \<Rightarrow> nat" where
  "nbytes a = nat (ndarray_size a) * itemsize a"

definition int32size :: nat where
  "int32size = 4"

text \<open>
  \<^verbatim>\<open>intpsize = numpy.intp(0).nbytes\<close> is the pointer width of the host platform
  (8 on a 64-bit host, 4 on a 32-bit one); it is a parameter of the model.
\<close>

definition GPUArray_size :: "nat \<Rightarrow> nat" where
  "GPUArray_size intpsize = intpsize + (4 + 4 + 1 + 1) * int32size"

record GPUArray =
  data :: ndarray
  pointer :: nat
  device_data :: nat

text \<open>
  numpy's fixed-width signed integers: a value that does not fit is reduced modulo the
  width, as the conversion to \<^verbatim>\<open>numpy.int32\<close> and the arithmetic on 64-bit arrays do
  on a 64-bit host.
\<close>

definition int32 :: "int \<Rightarrow> int" where
  "int32 x = (x + 2 ^ 31) mod 2 ^ 32 - 2 ^ 31"

definition int64 :: "int \<Rightarrow> int" where
  "int64 x = (x + 2 ^ 63) mod 2 ^ 64 - 2 ^ 63"

definition descriptor_struct :: "ndarray \<Rightarrow> int list" where
  \<comment> \<open>a tuple times a negative number is the empty tuple, as \<open>replicate\<close> on the truncating
     difference; the tuple is then stored as \<^verbatim>\<open>numpy.array(struct, dtype=numpy.int32)\<close>\<close>
  "descriptor_struct a =
     map int32
       (shape a @ replicate (4 - ndim a) 0 @ replicate 4 0 @ [int (ndim a), ndarray_size a])"

definition GPUArray_init :: "nat \<Rightarrow> ndarray \<Rightarrow> device \<Rightarrow> GPUArray \<times> device" where
  "GPUArray_init intpsize a dev =
    (let ptr = length dev;
         dev1 = dev @ [MemAlloc (GPUArray_size intpsize)];
         ddata = length dev1;
         dev2 = dev1 @ [ToDevice (nbytes a)];
         dev3 = dev2 @ [MemcpyHtoD ptr 0 (Pointer ddata)];
         dev4 = dev3 @ [MemcpyHtoD ptr intpsize (Int32s (descriptor_struct a))]
     in (\<lparr>data = a, pointer = ptr, device_data = ddata\<rparr>, dev4))"

section \<open>Function registry: \<^verbatim>\<open>blockwise\<close>\<close>

text \<open>
  The dictionaries handed to \<^verbatim>\<open>blockwise\<close> have as keys either one variable name
  or a tuple of names. A dictionary is the list of its items in iteration order.
\<close>

datatype names = Name string | Names "string list"

fun add_names :: "string list \<Rightarrow> 'v \<Rightarrow> (string \<times> 'v) list \<Rightarrow> error + (string \<times> 'v) list" where
  "add_names [] v simple = Inr simple"
| "add_names (name # rest) v simple =
     (if name \<in> fst ` set simple then Inl (DuplicateVariable name)
      else add_names rest v (simple @ [(name, v)]))"

fun simplify_items :: "(names \<times> 'v) list \<Rightarrow> (string \<times> 'v) list \<Rightarrow> error + (string \<times> 'v) list" where
  "simplify_items [] simple = Inr simple"
| "simplify_items ((ns, v) # items) simple =
     (case add_names (case ns of Name n \<Rightarrow> [n] | Names l \<Rightarrow> l) v simple of
        Inl e \<Rightarrow> Inl e
      | Inr simple' \<Rightarrow> simplify_items items simple')"

definition simplify :: "(names \<times> 'v) list \<Rightarrow> error + (string \<times> 'v) list" where
  "simplify mapping = simplify_items mapping []"

fun map_arg_types :: "(string \<times> pyclass) list \<Rightarrow> error + (string \<times> string \<times> string) list" where
  \<comment> \<open>\<^verbatim>\<open>for varname, vartype in types.items(): types[varname] = get_arg_type(vartype)\<close>\<close>
  "map_arg_types [] = Inr []"
| "map_arg_types ((varname, vartype) # rest) =
     (case get_arg_type vartype of
        Inl e \<Rightarrow> Inl e
      | Inr t \<Rightarrow> (case map_arg_types rest of Inl e \<Rightarrow> Inl e | Inr ts \<Rightarrow> Inr ((varname, t) # ts)))"

text \<open>
  Of the decorated Python function the registry needs the name and the argument names
  (\<^verbatim>\<open>inspect.getargspec(func).args\<close>). The syntax tree and the prototypes of an entry
  belong to the code generator and are left out.
\<close>

record pyfunc =
  func_name :: string
  func_args :: "string list"

record info =
  func :: pyfunc
  blockshapes :: "(string \<times> int list) list"
  overlapping :: bool
  center_as_origin :: bool
  types :: "(string \<times> string \<times> string) list"

type_synonym registry = "string \<rightharpoonup> info"

definition blockwise ::
  "registry \<Rightarrow> (names \<times> int list) list \<Rightarrow> (names \<times> pyclass) list \<Rightarrow> bool \<Rightarrow> bool \<Rightarrow>
   string option \<Rightarrow> pyfunc \<Rightarrow> error + registry" where
  "blockwise gpu_funcs bshapes tps ovl center name f =
    (case simplify bshapes of
       Inl e \<Rightarrow> Inl e
     | Inr bshapes' \<Rightarrow>
        (case simplify tps of
           Inl e \<Rightarrow> Inl e
         | Inr tps' \<Rightarrow>
            (if \<not> (ovl \<or> \<not> center) then Inl InvalidConfiguration
             else
               (case map_arg_types tps' of
                  Inl e \<Rightarrow> Inl e
                | Inr tps'' \<Rightarrow>
                   (let fname = (case name of None \<Rightarrow> func_name f
                                 | Some n \<Rightarrow> if n = [] then func_name f else n)
                    in if gpu_funcs fname \<noteq> None then Inl (DuplicateRegistration fname)
                       else Inr (gpu_funcs(fname \<mapsto>
                              \<lparr>func = f, blockshapes = bshapes', overlapping = ovl,
                               center_as_origin = center, types = tps''\<rparr>)))))))"

section \<open>Block partitioner and dispatcher: \<^verbatim>\<open>_gpu_func\<close>\<close>

text \<open>
  Shapes, of arrays and of blocks, are tuples of Python integers and are modelled by
  lists of unbounded integers; a block shape given as a Python list is outside the
  model. Python's \<^verbatim>\<open>%\<close> and floor division on integers agree with \<open>mod\<close> and
  \<open>div\<close> on \<open>int\<close>, the zero divisor apart, which is written out.

  numpy's \<^verbatim>\<open>prod\<close> multiplies in 64-bit integers. In the sliding-window branch the
  product is the block count itself and is reduced by \<open>int64\<close>. In the branch of the
  non-overlapping blocks the product of the block shape is only the divisor; there the
  model keeps the exact product, which is numpy's value whenever the block shape has
  fewer than \<open>2 ^ 63\<close> elements, as it has whenever it divides the axes of an array
  that is not empty. The element count \<^verbatim>\<open>arg.data.size\<close> is a Python integer and exact.
\<close>

definition np_subtract :: "int list \<Rightarrow> int list \<Rightarrow> error + int list" where
  \<comment> \<open>numpy's subtraction of two one-dimensional arrays, with its broadcasting rule\<close>
  "np_subtract xs ys =
    (if length xs = length ys then Inr (map2 (-) xs ys)
     else if length xs = 1 then Inr (map (\<lambda>y. hd xs - y) ys)
     else if length ys = 1 then Inr (map (\<lambda>x. x - hd ys) xs)
     else Inl BroadcastError)"

fun any_remainder :: "(int \<times> int) list \<Rightarrow> error + bool" where
  \<comment> \<open>\<^verbatim>\<open>any(dim1 % dim2 for dim1, dim2 in ...)\<close>: stops at the first non-zero remainder\<close>
  "any_remainder [] = Inr False"
| "any_remainder ((dim1, dim2) # rest) =
     (if dim2 = 0 then Inl ZeroDivisionError
      else if dim1 mod dim2 \<noteq> 0 then Inr True
      else any_remainder rest)"

definition np_floordiv :: "int \<Rightarrow> int \<Rightarrow> int" where
  \<comment> \<open>Python 2's \<^verbatim>\<open>/\<close> on a numpy integer floors; numpy gives 0 (and a warning) for a zero divisor\<close>
  "np_floordiv a b = (if b = 0 then 0 else a div b)"

definition blockcount_of :: "bool \<Rightarrow> bool \<Rightarrow> string \<Rightarrow> ndarray \<Rightarrow> int list \<Rightarrow> error + int" where
  "blockcount_of ovl center argname a bshape =
    (if ovl \<and> bshape = replicate (length bshape) 1 then
       (if center then
          (if list_all (\<lambda>dim. dim mod 2 \<noteq> 0) bshape then Inr (ndarray_size a)
           else Inl (UnevenBlockDimensions argname))
        else
          (case np_subtract (shape a) (map (\<lambda>d. d - 1) bshape) of
             Inl e \<Rightarrow> Inl e
           | Inr terms \<Rightarrow> Inr (int64 (prod_list terms))))
     else
       (case any_remainder (zip (shape a) bshape) of
          Inl e \<Rightarrow> Inl e
        | Inr True \<Rightarrow> Inl (IndivisibleBlockShape argname)
        | Inr False \<Rightarrow> Inr (np_floordiv (ndarray_size a) (prod_list bshape))))"

text \<open>
  The part of the loop body that runs for a device array: the block shape registered
  for the argument's name is looked up; an absent or empty shape leaves \<^verbatim>\<open>count\<close> as
  it is; otherwise the argument's block count is computed, compared with a non-zero
  \<^verbatim>\<open>count\<close>, and stored in \<^verbatim>\<open>count\<close>.
\<close>

definition partition_arg :: "info \<Rightarrow> string \<Rightarrow> GPUArray \<Rightarrow> int \<Rightarrow> error + int" where
  "partition_arg entry argname g cnt =
    (case map_of (blockshapes entry) argname of
       None \<Rightarrow> Inr cnt
     | Some bshape \<Rightarrow>
         if bshape = [] then Inr cnt
         else (case blockcount_of (overlapping entry) (center_as_origin entry) argname (data g) bshape of
                 Inl e \<Rightarrow> Inl e
               | Inr blockcount \<Rightarrow>
                   if cnt \<noteq> 0 \<and> cnt \<noteq> blockcount then Inl (InconsistentBlockCount argname)
                   else Inr blockcount))"

datatype arg = Ndarray ndarray | DeviceArray GPUArray | Scalar int

record call_state =
  kernel_args :: "kernel_arg list"
  arrays :: "GPUArray list"
  count :: int
  device :: device

definition block_arg :: "info \<Rightarrow> string \<Rightarrow> GPUArray \<Rightarrow> call_state \<Rightarrow> error \<times> call_state + call_state" where
  "block_arg entry argname g st =
    (case partition_arg entry argname g (count st) of
       Inl e \<Rightarrow> Inl (e, st)
     | Inr c \<Rightarrow> Inr (st\<lparr>count := c, kernel_args := kernel_args st @ [KPointer (pointer g)]\<rparr>))"

definition process_arg :: "nat \<Rightarrow> info \<Rightarrow> string \<Rightarrow> arg \<Rightarrow> call_state \<Rightarrow> error \<times> call_state + call_state" where
  "process_arg intpsize entry argname x st =
    (case x of
       Ndarray a \<Rightarrow>
         (case GPUArray_init intpsize a (device st) of
            (g, dev') \<Rightarrow> block_arg entry argname g (st\<lparr>device := dev', arrays := arrays st @ [g]\<rparr>))
     | DeviceArray g \<Rightarrow> block_arg entry argname g st
     | Scalar v \<Rightarrow> Inr (st\<lparr>kernel_args := kernel_args st @ [KScalar v]\<rparr>))"

fun gpu_func_loop :: "nat \<Rightarrow> info \<Rightarrow> (string \<times> arg) list \<Rightarrow> call_state \<Rightarrow> error \<times> call_state + call_state" where
  "gpu_func_loop intpsize entry [] st = Inr st"
| "gpu_func_loop intpsize entry ((argname, x) # rest) st =
     (case process_arg intpsize entry argname x st of
        Inl failure \<Rightarrow> Inl failure
      | Inr st' \<Rightarrow> gpu_func_loop intpsize entry rest st')"

text \<open>
  The call itself: the loop over the arguments, then the launch with \<^verbatim>\<open>count\<close> as
  the trailing kernel argument, then the copies back to the host. The grid and block
  shapes that pycuda's \<^verbatim>\<open>splay\<close> derives from \<^verbatim>\<open>count\<close> are not part of the model.
\<close>

definition gpu_func :: "nat \<Rightarrow> info \<Rightarrow> device \<Rightarrow> arg list \<Rightarrow> error \<times> device + device" where
  \<comment> \<open>an error comes with the device trace at the moment it is raised\<close>
  "gpu_func intpsize entry dev args =
    (case gpu_func_loop intpsize entry (zip (func_args (func entry)) args)
            \<lparr>kernel_args = [], arrays = [], count = 0, device = dev\<rparr> of
       Inl (e, st) \<Rightarrow> Inl (e, device st)
     | Inr st \<Rightarrow>
         Inr (device st @ [PreparedCall (kernel_args st @ [KScalar (count st)])]
                @ map (\<lambda>g. FromDevice (device_data g)) (arrays st)))"

section \<open>Formulas of the specification and observations on the device trace\<close>

text \<open>
  The specification's sliding-window formula: the product over the axes of
  \<open>S[axis] - (B[axis] - 1)\<close>. It is written from the specification's words, to be
  compared with what \<open>blockcount_of\<close> computes.
\<close>

definition spec_sliding_window_count :: "int list \<Rightarrow> int list \<Rightarrow> int" where
  "spec_sliding_window_count S B = prod_list (map2 (\<lambda>s b. s - (b - 1)) S B)"

text \<open>
  The specification's descriptor size: one pointer and ten 32-bit integers, rounded up
  to a multiple of 64 bytes.
\<close>

definition round_up_to :: "nat \<Rightarrow> nat \<Rightarrow> nat" where
  "round_up_to m n = ((n + m - 1) div m) * m"

definition spec_descriptor_size :: "nat \<Rightarrow> nat" where
  "spec_descriptor_size intpsize = round_up_to 64 (intpsize + 10 * int32size)"

text \<open>The byte sizes handed to \<^verbatim>\<open>driver.mem_alloc\<close>, in the order of the calls.\<close>

definition mem_allocs :: "device \<Rightarrow> nat list" where
  "mem_allocs dev = concat (map (\<lambda>ev. case ev of MemAlloc n \<Rightarrow> [n] | _ \<Rightarrow> []) dev)"

text \<open>
  What constructing a \<^verbatim>\<open>GPUArray\<close> for every raw host array of an argument list does
  to the device, the other arguments touching nothing.
\<close>

fun uploads :: "nat \<Rightarrow> arg list \<Rightarrow> device \<Rightarrow> device" where
  "uploads intpsize [] dev = dev"
| "uploads intpsize (Ndarray a # xs) dev = uploads intpsize xs (snd (GPUArray_init intpsize a dev))"
| "uploads intpsize (x # xs) dev = uploads intpsize xs dev"

subsection \<open>Example arrays, registry entries and device traces\<close>

text \<open>A one-dimensional array of \<open>n\<close> elements of four bytes.\<close>

definition vec :: "int \<Rightarrow> ndarray" where
  "vec n = \<lparr>shape = [n], itemsize = 4\<rparr>"

text \<open>
  A function of two arguments, both partitioned into overlapping blocks of one element.
\<close>

definition entry_ab :: info where
  "entry_ab = \<lparr>func = \<lparr>func_name = ''f'', func_args = [''a'', ''b'']\<rparr>,
     blockshapes = [(''a'', [1]), (''b'', [1])], overlapping = True, center_as_origin = False,
     types = [(''a'', ''P'', ''IntArray''), (''b'', ''P'', ''IntArray'')]\<rparr>"

text \<open>
  A function of three arguments, each partitioned into overlapping blocks of one element.
\<close>

definition entry_abc :: info where
  "entry_abc = \<lparr>func = \<lparr>func_name = ''h'', func_args = [''a'', ''b'', ''c'']\<rparr>,
     blockshapes = [(''a'', [1]), (''b'', [1]), (''c'', [1])], overlapping = True,
     center_as_origin = False,
     types = [(''a'', ''P'', ''IntArray''), (''b'', ''P'', ''IntArray''),
              (''c'', ''P'', ''IntArray'')]\<rparr>"

text \<open>
  A function of two arguments with non-overlapping blocks, of shape (2, 2) for the first
  and (2,) for the second.
\<close>

definition entry_disjoint :: info where
  "entry_disjoint = \<lparr>func = \<lparr>func_name = ''g'', func_args = [''a'', ''b'']\<rparr>,
     blockshapes = [(''a'', [2, 2]), (''b'', [2])], overlapping = False, center_as_origin = False,
     types = [(''a'', ''P'', ''IntArray''), (''b'', ''P'', ''IntArray'')]\<rparr>"

text \<open>
  The device after \<^verbatim>\<open>GPUArray(a)\<close> and \<^verbatim>\<open>GPUArray(b)\<close> for arrays of 3 and of 4
  elements on a host with 8-byte pointers, and the two device arrays so obtained.
\<close>

definition dev_ab :: device where
  "dev_ab = [MemAlloc 48, ToDevice 12, MemcpyHtoD 0 0 (Pointer 1),
       MemcpyHtoD 0 8 (Int32s [3, 0, 0, 0, 0, 0, 0, 0, 1, 3]), MemAlloc 48,
       ToDevice 16, MemcpyHtoD 4 0 (Pointer 5),
       MemcpyHtoD 4 8 (Int32s [4, 0, 0, 0, 0, 0, 0, 0, 1, 4])]"

definition gpu_a :: GPUArray where
  "gpu_a = \<lparr>data = vec 3, pointer = 0, device_data = 1\<rparr>"

definition gpu_b :: GPUArray where
  "gpu_b = \<lparr>data = vec 4, pointer = 4, device_data = 5\<rparr>"

section \<open>Properties of the Type Mapper\<close>

lemma get_arg_type_table:
  "get_arg_type (numpy_signed ''int8'') = Inr (''b'', ''char'')"
  "get_arg_type (numpy_unsigned ''uint8'') = Inr (''B'', ''unsigned char'')"
  "get_arg_type (numpy_signed ''int16'') = Inr (''h'', ''short'')"
  "get_arg_type (numpy_unsigned ''uint16'') = Inr (''H'', ''unsigned short'')"
  "get_arg_type (numpy_signed ''int32'') = Inr (''i'', ''int'')"
  "get_arg_type (numpy_unsigned ''uint32'') = Inr (''I'', ''unsigned int'')"
  "get_arg_type (numpy_unsigned ''uint64'') = Inr (''L'', ''unsigned long'')"
  "get_arg_type py_long = Inr (''l'', ''long'')"
  "get_arg_type numpy_float32 = Inr (''f'', ''float'')"
  "get_arg_type IntArray = Inr (''P'', ''IntArray'')"
  "get_arg_type FloatArray = Inr (''P'', ''FloatArray'')"
  by (simp_all add: get_arg_type_def issubclass_def numpy_signed_def numpy_unsigned_def
        py_long_def numpy_float32_def IntArray_def FloatArray_def)

lemma get_arg_type_error_fixed:
  "get_arg_type arg = Inl e \<Longrightarrow> e = NameError ''tp''"
  by (simp add: get_arg_type_def split: if_splits)

text \<open>
  Claim C8, at the inputs where the code departs from it. The claim: every supported
  element type is mapped as the fixed table says (in particular float64 to \<open>d\<close>), and
  an unsupported type fails with an error that names the offending value. The code:
  the class \<^verbatim>\<open>str\<close>, which no branch accepts, ends in the NameError for the unbound
  name \<^verbatim>\<open>tp\<close>, which carries nothing of the argument; and \<^verbatim>\<open>numpy.float64\<close>, being a
  subclass of \<^verbatim>\<open>float\<close>, is caught by the branch for \<^verbatim>\<open>(float, numpy.float32)\<close> before
  the branch for \<^verbatim>\<open>numpy.float64\<close> is reached, and is mapped to \<open>f\<close>.
\<close>

theorem get_arg_type_departs_from_table:
  "get_arg_type py_str = Inl (NameError ''tp'')
   \<and> get_arg_type numpy_float64 = Inr (''f'', ''float'')"
  by (simp add: get_arg_type_def issubclass_def py_str_def numpy_float64_def)

text \<open>
  Claim C10: for Python's built-in \<^verbatim>\<open>float\<close> the Type Mapper returns the marshal code
  \<open>f\<close> with the native name \<open>float\<close>, and for the built-in \<^verbatim>\<open>int\<close> it returns \<open>i\<close>
  with \<open>int\<close>; these are the entries of the 32-bit types \<^verbatim>\<open>numpy.float32\<close> and
  \<^verbatim>\<open>numpy.int32\<close>, and not the entries \<open>d\<close> and \<open>l\<close> of the 64-bit branches.
\<close>

theorem builtin_scalars_use_32bit_codes:
  "get_arg_type py_float = Inr (''f'', ''float'')
   \<and> get_arg_type py_int = Inr (''i'', ''int'')
   \<and> get_arg_type py_float = get_arg_type numpy_float32
   \<and> get_arg_type py_int = get_arg_type (numpy_signed ''int32'')
   \<and> get_arg_type py_float \<noteq> Inr (''d'', ''double'')
   \<and> get_arg_type py_int \<noteq> Inr (''l'', ''long'')"
  by (simp add: get_arg_type_def issubclass_def py_float_def py_int_def numpy_float32_def
        numpy_signed_def)

section \<open>Properties of the block partitioner\<close>

lemma any_remainder_zip:
  "\<forall>b\<in>set bs. b \<noteq> 0 \<Longrightarrow>
   any_remainder (zip ss bs) = Inr (\<exists>(s, b)\<in>set (zip ss bs). s mod b \<noteq> 0)"
proof (induction ss arbitrary: bs)
  case Nil
  then show ?case by simp
next
  case (Cons s ss)
  show ?case
  proof (cases bs)
    case Nil
    then show ?thesis by simp
  next
    case (Cons b bs')
    with Cons.prems have "b \<noteq> 0" and "\<forall>b\<in>set bs'. b \<noteq> 0" by simp_all
    with Cons.IH [of bs'] Cons show ?thesis by simp
  qed
qed

lemma all_multiples_zip:
  "length ss = length bs \<Longrightarrow>
   list_all2 (\<lambda>s b. b dvd s) ss bs \<longleftrightarrow> \<not> (\<exists>(s, b)\<in>set (zip ss bs). s mod b \<noteq> (0::int))"
  by (auto simp: list_all2_iff mod_eq_0_iff_dvd)

text \<open>
  Claim C1: with \<^verbatim>\<open>overlapping\<close> false, for an array of shape \<open>S\<close> and a block shape
  \<open>B\<close> of the same rank with positive axes: if every axis of \<open>S\<close> is an exact multiple
  of the corresponding axis of \<open>B\<close>, the block count computed for the argument is
  the element count of \<open>S\<close> divided by the element count of \<open>B\<close>; otherwise
  partitioning fails in the divisibility assertion.
\<close>

theorem nonoverlapping_blockcount:
  assumes "length (shape a) = length bshape" and "\<forall>b\<in>set bshape. 0 < b"
  shows "blockcount_of False center argname a bshape =
     (if list_all2 (\<lambda>s b. b dvd s) (shape a) bshape
      then Inr (ndarray_size a div prod_list bshape)
      else Inl (IndivisibleBlockShape argname))"
proof -
  from assms(2) have nz: "\<forall>b\<in>set bshape. b \<noteq> 0" by auto
  then have "prod_list bshape \<noteq> 0" by (auto simp: prod_list_zero_iff)
  with any_remainder_zip [OF nz, of "shape a"] all_multiples_zip [OF assms(1)]
  show ?thesis by (simp add: blockcount_of_def np_floordiv_def)
qed

theorem nonoverlapping_blockcount_witness:
  "blockcount_of False False ''a'' \<lparr>shape = [4, 6], itemsize = 4\<rparr> [2, 3] = Inr 4
   \<and> blockcount_of False False ''a'' \<lparr>shape = [4, 6], itemsize = 4\<rparr> [3, 3]
       = Inl (IndivisibleBlockShape ''a'')"
proof -
  have len: "length (shape \<lparr>shape = [4, 6], itemsize = 4\<rparr>) = length [2, 3 :: int]"
    and len': "length (shape \<lparr>shape = [4, 6], itemsize = 4\<rparr>) = length [3, 3 :: int]"
    by simp_all
  have pos: "\<forall>b\<in>set [2, 3 :: int]. 0 < b" and pos': "\<forall>b\<in>set [3, 3 :: int]. 0 < b"
    by simp_all
  from nonoverlapping_blockcount [OF len pos, of False "''a''"]
       nonoverlapping_blockcount [OF len' pos', of False "''a''"]
  show ?thesis by (simp add: ndarray_size_def)
qed


text \<open>
  Claim C2, at inputs where the code departs from it. The claim: with \<^verbatim>\<open>overlapping\<close>
  true and \<^verbatim>\<open>center_as_origin\<close> false the block count is the sliding-window product
  for every block shape, also one that is not all ones. The code uses that product only
  when the block shape is all ones; any other shape is sent to the branch of the
  non-overlapping blocks. For a 4 by 4 array and 2 by 2 blocks it returns 16 / 4 = 4
  where the formula gives 9, and for a 5 by 5 array and 3 by 3 blocks it fails in the
  divisibility assertion where the formula gives 9.
\<close>

theorem overlapping_blocks_counted_as_disjoint:
  "blockcount_of True False ''a'' \<lparr>shape = [4, 4], itemsize = 4\<rparr> [2, 2] = Inr 4
   \<and> spec_sliding_window_count [4, 4] [2, 2] = 9
   \<and> blockcount_of True False ''a'' \<lparr>shape = [5, 5], itemsize = 4\<rparr> [3, 3]
        = Inl (IndivisibleBlockShape ''a'')
   \<and> spec_sliding_window_count [5, 5] [3, 3] = 9"
  by (simp add: blockcount_of_def np_floordiv_def ndarray_size_def spec_sliding_window_count_def)


lemma np_subtract_zeros:
  "np_subtract ss (replicate n 0) =
     (if length ss = n then Inr ss
      else if length ss = 1 then Inr (replicate n (hd ss))
      else if n = 1 then Inr ss
      else Inl BroadcastError)"
  by (auto simp: np_subtract_def list_eq_iff_nth_eq map_replicate_const)







text \<open>
  Claim C7 as stated fails: with \<^verbatim>\<open>overlapping\<close> false, the array of shape (4, 4)
  (rank 2) with the block shape (2,) (rank 1) is accepted, with block count 16 / 2 = 8.
\<close>

theorem rank_mismatch_accepted:
  "blockcount_of False False ''a'' \<lparr>shape = [4, 4], itemsize = 4\<rparr> [2] = Inr 8"
  by (simp add: blockcount_of_def np_floordiv_def ndarray_size_def)

text \<open>
  Claim C7 as amended: the ranks of the array and of its block shape are not compared.
  For an array whose rank differs from that of its non-empty, positive block shape (a
  tuple of fewer than \<open>2 ^ 63\<close> elements, so that numpy's 64-bit product of it is
  exact): with \<^verbatim>\<open>overlapping\<close> false the axes are paired up to the shorter rank,
  partitioning fails in the divisibility assertion when a paired array axis is not a
  multiple of its block axis, and otherwise gives the element count of the array divided
  by that of the block; for the all-ones block shape with \<^verbatim>\<open>overlapping\<close> true, the
  count is the array's element count when \<^verbatim>\<open>center_as_origin\<close> is true, and when it
  is false numpy's broadcasting decides: the call fails (numpy's ValueError) only when
  neither rank is 1, and otherwise the count is the 64-bit product of the broadcast
  axes, with numpy's wrap-around.
\<close>

theorem rank_mismatch_unchecked:
  assumes "length (shape a) \<noteq> length bshape" and "bshape \<noteq> []"
    and "\<forall>b\<in>set bshape. 0 < b" and "prod_list bshape < 2 ^ 63"
  shows "blockcount_of False center argname a bshape =
           (if \<exists>(s, b)\<in>set (zip (shape a) bshape). \<not> b dvd s
            then Inl (IndivisibleBlockShape argname)
            else Inr (ndarray_size a div prod_list bshape))
       \<and> (bshape = replicate (length bshape) 1 \<longrightarrow>
            blockcount_of True True argname a bshape = Inr (ndarray_size a)
          \<and> blockcount_of True False argname a bshape =
              (if length (shape a) = 1 then Inr (int64 (hd (shape a) ^ length bshape))
               else if length bshape = 1 then Inr (int64 (ndarray_size a))
               else Inl BroadcastError))"
proof -
  from assms(3) have nz: "\<forall>b\<in>set bshape. b \<noteq> 0" by auto
  then have pz: "prod_list bshape \<noteq> 0" by (auto simp: prod_list_zero_iff)
  have non: "blockcount_of False center argname a bshape =
           (if \<exists>(s, b)\<in>set (zip (shape a) bshape). \<not> b dvd s
            then Inl (IndivisibleBlockShape argname)
            else Inr (ndarray_size a div prod_list bshape))"
    using any_remainder_zip [OF nz, of "shape a"] pz
    by (simp add: blockcount_of_def np_floordiv_def mod_eq_0_iff_dvd)
  have ones: "blockcount_of True True argname a bshape = Inr (ndarray_size a)
          \<and> blockcount_of True False argname a bshape =
              (if length (shape a) = 1 then Inr (int64 (hd (shape a) ^ length bshape))
               else if length bshape = 1 then Inr (int64 (ndarray_size a))
               else Inl BroadcastError)" if o: "bshape = replicate (length bshape) 1"
  proof -
    have odd: "list_all (\<lambda>dim. dim mod 2 \<noteq> 0) bshape"
      by (subst o) (simp add: list_all_iff)
    have z: "map (\<lambda>d. d - 1) bshape = replicate (length bshape) (0::int)"
      by (subst o) simp
    from o odd have c: "blockcount_of True True argname a bshape = Inr (ndarray_size a)"
      by (simp add: blockcount_of_def)
    from o z assms(1) np_subtract_zeros [of "shape a" "length bshape"]
    have "blockcount_of True False argname a bshape =
              (if length (shape a) = 1 then Inr (int64 (hd (shape a) ^ length bshape))
               else if length bshape = 1 then Inr (int64 (ndarray_size a))
               else Inl BroadcastError)"
      by (simp add: blockcount_of_def ndarray_size_def)
    with c show ?thesis by simp
  qed
  from non ones show ?thesis by blast
qed

theorem rank_mismatch_unchecked_witness:
  "blockcount_of False False ''a'' \<lparr>shape = [4, 4], itemsize = 4\<rparr> [1] = Inr 16
   \<and> blockcount_of True True ''a'' \<lparr>shape = [4, 4], itemsize = 4\<rparr> [1] = Inr 16
   \<and> blockcount_of True False ''a'' \<lparr>shape = [4, 4], itemsize = 4\<rparr> [1] = Inr 16"
proof -
  have 1: "length (shape \<lparr>shape = [4, 4], itemsize = 4\<rparr>) \<noteq> length [1 :: int]" by simp
  have 2: "[1 :: int] \<noteq> []" by simp
  have 3: "\<forall>b\<in>set [1 :: int]. 0 < b" by simp
  have 4: "prod_list [1 :: int] < 2 ^ 63" by simp
  from rank_mismatch_unchecked [OF 1 2 3 4, of False "''a''"]
  show ?thesis by (simp add: ndarray_size_def int64_def)
qed

lemma rank_mismatch_wraps:
  "blockcount_of True False ''a'' \<lparr>shape = [3000000], itemsize = 1\<rparr> [1, 1, 1]
     = Inr 8553255926290448384"
  by (simp add: blockcount_of_def np_subtract_def int64_def)

section \<open>Properties of the array descriptor\<close>

text \<open>
  Claim C9 as stated fails: on a host with 8-byte pointers the descriptor allocated for
  an array of rank 2 has 48 bytes, while one pointer plus ten 32-bit integers rounded up
  to a multiple of 64 is 64 bytes.
\<close>

theorem descriptor_not_rounded:
  "hd (snd (GPUArray_init 8 \<lparr>shape = [3, 5], itemsize = 4\<rparr> [])) = MemAlloc 48
   \<and> spec_descriptor_size 8 = 64"
  by (simp add: GPUArray_init_def GPUArray_size_def int32size_def spec_descriptor_size_def
        round_up_to_def Let_def)

text \<open>
  Claim C9 as amended: for every host array, whatever its rank, constructing its
  \<^verbatim>\<open>GPUArray\<close> makes exactly one call of \<^verbatim>\<open>mem_alloc\<close>, for the descriptor, and its
  size is the pointer width plus ten 32-bit integers, with no rounding.
\<close>

theorem descriptor_size_fixed:
  "mem_allocs (snd (GPUArray_init intpsize a dev)) = mem_allocs dev @ [GPUArray_size intpsize]
   \<and> GPUArray_size intpsize = intpsize + 10 * int32size"
  by (simp add: GPUArray_init_def GPUArray_size_def mem_allocs_def Let_def)

section \<open>Properties of the dispatcher\<close>

lemma replicate_numeral_unfold:
  "replicate (numeral k) x = x # replicate (pred_numeral k) x"
  by (simp add: numeral_eq_Suc)

lemmas eval_defs = replicate_numeral_unfold gpu_func_def process_arg_def GPUArray_init_def
  GPUArray_size_def int32size_def nbytes_def ndarray_size_def ndim_def descriptor_struct_def
  block_arg_def partition_arg_def blockcount_of_def np_subtract_def np_floordiv_def Let_def
  vec_def int32_def int64_def

lemma GPUArray_init_examples:
  "GPUArray_init 8 (vec 3) [] = (gpu_a, take 4 dev_ab)"
  "GPUArray_init 8 (vec 4) (take 4 dev_ab) = (gpu_b, dev_ab)"
  by (simp_all add: eval_defs gpu_a_def gpu_b_def dev_ab_def)

lemma partition_arg_established:
  assumes "map_of (blockshapes entry) argname = Some bshape" and "bshape \<noteq> []"
    and "blockcount_of (overlapping entry) (center_as_origin entry) argname (data g) bshape = Inr bc"
  shows "partition_arg entry argname g cnt =
     (if cnt \<noteq> 0 \<and> cnt \<noteq> bc then Inl (InconsistentBlockCount argname) else Inr bc)"
  using assms by (simp add: partition_arg_def)

text \<open>
  Claim C6, at inputs where the code departs from it. The claim: a later block-shaped
  argument whose block count differs from the established one makes the call fail,
  also when the established count is zero. The code compares only under
  \<^verbatim>\<open>if count:\<close>, and \<^verbatim>\<open>count\<close> is 0 both before the first block-shaped argument and
  after one whose block count is 0. With one-element overlapping blocks, an empty array
  gives 0 and an array of 4 elements gives 4; the call goes through and launches the
  kernel with 4 as the block count. The same happens with non-empty arrays and
  non-overlapping blocks: 2 elements in blocks of shape (2, 2) give 2 / 4 = 0, and
  4 elements in blocks of 2 give 2.
\<close>

theorem zero_blockcount_not_compared:
  "blockcount_of True False ''a'' (vec 0) [1] = Inr 0
   \<and> blockcount_of True False ''b'' (vec 4) [1] = Inr 4
   \<and> gpu_func 8 entry_ab [] [Ndarray (vec 0), Ndarray (vec 4)]
    = Inr [MemAlloc 48, ToDevice 0, MemcpyHtoD 0 0 (Pointer 1),
      MemcpyHtoD 0 8 (Int32s [0, 0, 0, 0, 0, 0, 0, 0, 1, 0]), MemAlloc 48,
      ToDevice 16, MemcpyHtoD 4 0 (Pointer 5),
      MemcpyHtoD 4 8 (Int32s [4, 0, 0, 0, 0, 0, 0, 0, 1, 4]),
      PreparedCall [KPointer 0, KPointer 4, KScalar 4], FromDevice 1,
      FromDevice 5]
   \<and> blockcount_of False False ''a'' (vec 2) [2, 2] = Inr 0
   \<and> blockcount_of False False ''b'' (vec 4) [2] = Inr 2
   \<and> gpu_func 8 entry_disjoint [] [Ndarray (vec 2), Ndarray (vec 4)]
    = Inr [MemAlloc 48, ToDevice 8, MemcpyHtoD 0 0 (Pointer 1),
      MemcpyHtoD 0 8 (Int32s [2, 0, 0, 0, 0, 0, 0, 0, 1, 2]), MemAlloc 48,
      ToDevice 16, MemcpyHtoD 4 0 (Pointer 5),
      MemcpyHtoD 4 8 (Int32s [4, 0, 0, 0, 0, 0, 0, 0, 1, 4]),
      PreparedCall [KPointer 0, KPointer 4, KScalar 2], FromDevice 1,
      FromDevice 5]"
  by (simp add: entry_ab_def entry_disjoint_def eval_defs)

lemma block_arg_device:
  assumes "block_arg entry argname g st = Inl (e, st') \<or> block_arg entry argname g st = Inr st'"
  shows "device st' = device st"
  using assms by (auto simp: block_arg_def split: sum.splits)

lemma process_arg_device:
  assumes "process_arg p entry argname x st = Inl (e, st')
         \<or> process_arg p entry argname x st = Inr st'"
  shows "device st' = uploads p [x] (device st)"
proof (cases x)
  case (Ndarray a)
  obtain g dev1 where i: "GPUArray_init p a (device st) = (g, dev1)"
    by (cases "GPUArray_init p a (device st)")
  let ?st1 = "st\<lparr>device := dev1, arrays := arrays st @ [g]\<rparr>"
  from assms Ndarray i
  have "block_arg entry argname g ?st1 = Inl (e, st') \<or> block_arg entry argname g ?st1 = Inr st'"
    by (simp add: process_arg_def)
  then have "device st' = device ?st1" by (rule block_arg_device)
  with Ndarray i show ?thesis by simp
next
  case (DeviceArray g)
  with assms
  have "block_arg entry argname g st = Inl (e, st') \<or> block_arg entry argname g st = Inr st'"
    by (simp add: process_arg_def)
  then have "device st' = device st" by (rule block_arg_device)
  with DeviceArray show ?thesis by simp
next
  case (Scalar v)
  with assms show ?thesis by (auto simp: process_arg_def)
qed

lemma uploads_Cons: "uploads p (x # xs) dev = uploads p xs (uploads p [x] dev)"
  by (cases x) simp_all

lemma uploads_no_ndarray: "\<forall>a. Ndarray a \<notin> set xs \<Longrightarrow> uploads p xs dev = dev"
  by (induction p xs dev rule: uploads.induct) auto

lemma uploads_append: "uploads p (xs @ ys) dev = uploads p ys (uploads p xs dev)"
  by (induction p xs dev rule: uploads.induct) simp_all

lemma GPUArray_init_events:
  "\<exists>evs. snd (GPUArray_init p a dev) = dev @ evs \<and> (\<forall>ka. PreparedCall ka \<notin> set evs)"
  by (simp add: GPUArray_init_def Let_def)

lemma uploads_events:
  "\<exists>evs. uploads p xs dev = dev @ evs \<and> (\<forall>ka. PreparedCall ka \<notin> set evs)"
proof (induction xs arbitrary: dev)
  case Nil
  show ?case by simp
next
  case (Cons x xs)
  show ?case
  proof (cases x)
    case (Ndarray a)
    from GPUArray_init_events [of p a dev] obtain evs1
      where 1: "snd (GPUArray_init p a dev) = dev @ evs1" "\<forall>ka. PreparedCall ka \<notin> set evs1"
      by blast
    from Cons.IH [of "snd (GPUArray_init p a dev)"] obtain evs2
      where 2: "uploads p xs (snd (GPUArray_init p a dev)) = snd (GPUArray_init p a dev) @ evs2"
        "\<forall>ka. PreparedCall ka \<notin> set evs2"
      by blast
    from 1 2 Ndarray have "uploads p (x # xs) dev = dev @ (evs1 @ evs2)
        \<and> (\<forall>ka. PreparedCall ka \<notin> set (evs1 @ evs2))" by simp
    then show ?thesis by blast
  next
    case (DeviceArray g)
    with Cons.IH [of dev] show ?thesis by simp
  next
    case (Scalar v)
    with Cons.IH [of dev] show ?thesis by simp
  qed
qed

lemma gpu_func_loop_success_device:
  "gpu_func_loop p entry nas st = Inr st' \<Longrightarrow>
   device st' = uploads p (map snd nas) (device st)"
proof (induction nas arbitrary: st)
  case Nil
  then show ?case by simp
next
  case (Cons na nas)
  obtain argname x where na: "na = (argname, x)" by (cases na)
  from Cons.prems na obtain st1 where 1: "process_arg p entry argname x st = Inr st1"
    and 2: "gpu_func_loop p entry nas st1 = Inr st'"
    by (cases "process_arg p entry argname x st") simp_all
  from 1 have "device st1 = uploads p [x] (device st)" by (rule process_arg_device [OF disjI2])
  moreover from 2 have "device st' = uploads p (map snd nas) (device st1)" by (rule Cons.IH)
  moreover have "uploads p (x # map snd nas) (device st)
      = uploads p (map snd nas) (uploads p [x] (device st))" by (rule uploads_Cons)
  ultimately show ?case using na by simp
qed

lemma gpu_func_loop_first_failure:
  "gpu_func_loop p entry nas st0 = Inl (e, st') \<Longrightarrow>
   \<exists>k st. k < length nas \<and> gpu_func_loop p entry (take k nas) st0 = Inr st
     \<and> process_arg p entry (fst (nas ! k)) (snd (nas ! k)) st = Inl (e, st')"
proof (induction nas arbitrary: st0)
  case Nil
  then show ?case by simp
next
  case (Cons na nas)
  obtain argname x where na: "na = (argname, x)" by (cases na)
  show ?case
  proof (cases "process_arg p entry argname x st0")
    case (Inl failure)
    with Cons.prems na have "process_arg p entry argname x st0 = Inl (e, st')" by simp
    with na have "0 < length (na # nas) \<and> gpu_func_loop p entry (take 0 (na # nas)) st0 = Inr st0
      \<and> process_arg p entry (fst ((na # nas) ! 0)) (snd ((na # nas) ! 0)) st0 = Inl (e, st')"
      by simp
    then show ?thesis by blast
  next
    case (Inr st1)
    with Cons.prems na have "gpu_func_loop p entry nas st1 = Inl (e, st')" by simp
    from Cons.IH [OF this] obtain k st where k: "k < length nas"
      "gpu_func_loop p entry (take k nas) st1 = Inr st"
      "process_arg p entry (fst (nas ! k)) (snd (nas ! k)) st = Inl (e, st')" by blast
    with Inr na have "Suc k < length (na # nas)
      \<and> gpu_func_loop p entry (take (Suc k) (na # nas)) st0 = Inr st
      \<and> process_arg p entry (fst ((na # nas) ! Suc k)) (snd ((na # nas) ! Suc k)) st = Inl (e, st')"
      by simp
    then show ?thesis by blast
  qed
qed

text \<open>
  Claim C4 as stated fails: called with two raw host arrays of 3 and of 4 elements, the
  function with one-element blocks fails on the second argument, whose block count does
  not match, and at that moment descriptors and data of both arrays are allocated and
  uploaded.
\<close>

theorem allocation_precedes_partition_error:
  "gpu_func 8 entry_ab [] [Ndarray (vec 3), Ndarray (vec 4)]
    = Inl (InconsistentBlockCount ''b'',
        [MemAlloc 48, ToDevice 12, MemcpyHtoD 0 0 (Pointer 1),
         MemcpyHtoD 0 8 (Int32s [3, 0, 0, 0, 0, 0, 0, 0, 1, 3]), MemAlloc 48,
         ToDevice 16, MemcpyHtoD 4 0 (Pointer 5),
         MemcpyHtoD 4 8 (Int32s [4, 0, 0, 0, 0, 0, 0, 0, 1, 4])])"
  by (simp add: entry_ab_def eval_defs)

text \<open>
  Claim C4 as amended: when a call fails with a partitioning error, there is an argument
  \<open>k\<close>, the failing one, such that the loop over the arguments before it goes through
  and the processing of argument \<open>k\<close> in the state so reached raises the error; the
  device is then what the state of that moment holds, and it has been touched by exactly
  the construction of a \<^verbatim>\<open>GPUArray\<close> (descriptor allocation and uploads) for each raw
  host array among the arguments up to and including argument \<open>k\<close>. Nothing is
  allocated for the arguments after \<open>k\<close>, and the kernel is not launched. In particular,
  when no argument is a raw host array, the device is as it was before the call.
\<close>

theorem partition_error_device_state:
  assumes "gpu_func p entry dev args = Inl (e, dev')"
  shows "(\<exists>k st st'. k < length args \<and> k < length (func_args (func entry))
            \<and> gpu_func_loop p entry (take k (zip (func_args (func entry)) args))
                \<lparr>kernel_args = [], arrays = [], count = 0, device = dev\<rparr> = Inr st
            \<and> process_arg p entry (func_args (func entry) ! k) (args ! k) st = Inl (e, st')
            \<and> dev' = device st'
            \<and> dev' = uploads p (take (Suc k) args) dev)
       \<and> (\<exists>evs. dev' = dev @ evs \<and> (\<forall>ka. PreparedCall ka \<notin> set evs))
       \<and> ((\<forall>a. Ndarray a \<notin> set args) \<longrightarrow> dev' = dev)"
proof -
  let ?names = "func_args (func entry)"
  let ?nas = "zip ?names args"
  let ?st0 = "\<lparr>kernel_args = [], arrays = [], count = 0, device = dev\<rparr>"
  from assms obtain st' where f: "gpu_func_loop p entry ?nas ?st0 = Inl (e, st')"
    and d: "dev' = device st'"
    by (auto simp: gpu_func_def split: sum.splits)
  from gpu_func_loop_first_failure [OF f] obtain k st where k: "k < length ?nas"
    and pre: "gpu_func_loop p entry (take k ?nas) ?st0 = Inr st"
    and fail: "process_arg p entry (fst (?nas ! k)) (snd (?nas ! k)) st = Inl (e, st')"
    by blast
  from k have kn: "k < length ?names" and ka: "k < length args" by simp_all
  then have nth: "?nas ! k = (?names ! k, args ! k)" by simp
  from kn ka have tk: "map snd (take k ?nas) = take k args"
    by (simp add: take_map [symmetric] map_snd_zip_take min_def)
  from gpu_func_loop_success_device [OF pre] tk
  have ds: "device st = uploads p (take k args) dev" by simp
  from fail nth have fail': "process_arg p entry (?names ! k) (args ! k) st = Inl (e, st')"
    by simp
  then have "device st' = uploads p [args ! k] (device st)"
    by (rule process_arg_device [OF disjI1])
  with ds have "device st' = uploads p (take k args @ [args ! k]) dev"
    by (simp add: uploads_append)
  with ka d have up: "dev' = uploads p (take (Suc k) args) dev"
    by (simp add: take_Suc_conv_app_nth)
  from uploads_events [of p "take (Suc k) args" dev] up
  have ev: "\<exists>evs. dev' = dev @ evs \<and> (\<forall>ka. PreparedCall ka \<notin> set evs)" by simp
  have none: "dev' = dev" if "\<forall>a. Ndarray a \<notin> set args"
  proof -
    from that have "\<forall>a. Ndarray a \<notin> set (take (Suc k) args)" by (meson in_set_takeD)
    with up show ?thesis by (simp add: uploads_no_ndarray)
  qed
  from ka kn pre fail' d up have "\<exists>k st st'. k < length args \<and> k < length ?names
            \<and> gpu_func_loop p entry (take k ?nas) ?st0 = Inr st
            \<and> process_arg p entry (?names ! k) (args ! k) st = Inl (e, st')
            \<and> dev' = device st'
            \<and> dev' = uploads p (take (Suc k) args) dev" by blast
  with ev none show ?thesis by blast
qed

lemma uploads_examples:
  "uploads 8 (take 1 [Ndarray (vec 3), Ndarray (vec 4), Ndarray (vec 5)]) [] = take 4 dev_ab"
  "uploads 8 (take 2 [Ndarray (vec 3), Ndarray (vec 4), Ndarray (vec 5)]) [] = dev_ab"
  "uploads 8 (take 3 [Ndarray (vec 3), Ndarray (vec 4), Ndarray (vec 5)]) [] =
     dev_ab @ [MemAlloc 48, ToDevice 20, MemcpyHtoD 8 0 (Pointer 9),
               MemcpyHtoD 8 8 (Int32s [5, 0, 0, 0, 0, 0, 0, 0, 1, 5])]"
  by (simp_all add: eval_defs dev_ab_def numeral_2_eq_2 numeral_3_eq_3)

theorem partition_error_device_state_witness:
  "(\<exists>k st st'. k < length [Ndarray (vec 3), Ndarray (vec 4), Ndarray (vec 5)]
        \<and> k < length (func_args (func entry_abc))
        \<and> gpu_func_loop 8 entry_abc
             (take k (zip (func_args (func entry_abc))
                        [Ndarray (vec 3), Ndarray (vec 4), Ndarray (vec 5)]))
             \<lparr>kernel_args = [], arrays = [], count = 0, device = []\<rparr> = Inr st
        \<and> process_arg 8 entry_abc (func_args (func entry_abc) ! k)
             ([Ndarray (vec 3), Ndarray (vec 4), Ndarray (vec 5)] ! k) st
            = Inl (InconsistentBlockCount ''b'', st')
        \<and> dev_ab = device st'
        \<and> dev_ab = uploads 8 (take (Suc k) [Ndarray (vec 3), Ndarray (vec 4), Ndarray (vec 5)]) [])
   \<and> (\<exists>evs. dev_ab = [] @ evs \<and> (\<forall>ka. PreparedCall ka \<notin> set evs))
   \<and> (\<exists>dev'. gpu_func 8 entry_ab dev_ab [DeviceArray gpu_a, DeviceArray gpu_b]
                 = Inl (InconsistentBlockCount ''b'', dev') \<and> dev' = dev_ab)"
proof -
  have raw: "gpu_func 8 entry_abc [] [Ndarray (vec 3), Ndarray (vec 4), Ndarray (vec 5)]
               = Inl (InconsistentBlockCount ''b'', dev_ab)"
    by (simp add: entry_abc_def dev_ab_def eval_defs)
  have ondev: "gpu_func 8 entry_ab dev_ab [DeviceArray gpu_a, DeviceArray gpu_b]
                 = Inl (InconsistentBlockCount ''b'', dev_ab)"
    by (simp add: entry_ab_def gpu_a_def gpu_b_def eval_defs)
  have n: "\<forall>a. Ndarray a \<notin> set [DeviceArray gpu_a, DeviceArray gpu_b]" by simp
  from partition_error_device_state [OF raw] partition_error_device_state [OF ondev] n ondev
  show ?thesis by blast
qed

section \<open>Properties of registration\<close>

lemma add_names_keys:
  "map fst s1 = map fst s2 \<Longrightarrow>
   map_sum id (map fst) (add_names ns v1 s1) = map_sum id (map fst) (add_names ns v2 s2)"
proof (induction ns arbitrary: s1 s2)
  case Nil
  then show ?case by simp
next
  case (Cons n ns)
  from Cons.prems have "fst ` set s1 = fst ` set s2" by (metis set_map)
  moreover from Cons.prems have "map fst (s1 @ [(n, v1)]) = map fst (s2 @ [(n, v2)])" by simp
  ultimately show ?case using Cons.IH by simp
qed

lemma simplify_items_keys:
  "map fst items1 = map fst items2 \<Longrightarrow> map fst s1 = map fst s2 \<Longrightarrow>
   map_sum id (map fst) (simplify_items items1 s1) = map_sum id (map fst) (simplify_items items2 s2)"
proof (induction items1 arbitrary: items2 s1 s2)
  case Nil
  then show ?case by simp
next
  case (Cons it items1)
  obtain ns v1 where it: "it = (ns, v1)" by (cases it)
  from Cons.prems(1) it obtain v2 rest where i2: "items2 = (ns, v2) # rest"
    and r: "map fst items1 = map fst rest" by (cases items2) auto
  let ?l = "case ns of Name n \<Rightarrow> [n] | Names l \<Rightarrow> l"
  have k: "map_sum id (map fst) (add_names ?l v1 s1) = map_sum id (map fst) (add_names ?l v2 s2)"
    using Cons.prems(2) by (rule add_names_keys)
  show ?case
  proof (cases "add_names ?l v1 s1")
    case (Inl e)
    with k have "add_names ?l v2 s2 = Inl e" by (cases "add_names ?l v2 s2") simp_all
    with Inl it i2 show ?thesis by simp
  next
    case (Inr t1)
    with k obtain t2 where t2: "add_names ?l v2 s2 = Inr t2" and "map fst t1 = map fst t2"
      by (cases "add_names ?l v2 s2") simp_all
    with Cons.IH [OF r, of t1 t2] Inr it i2 show ?thesis by simp
  qed
qed

lemma simplify_keys:
  assumes "map fst items1 = map fst items2"
  shows "(simplify items1 = Inl e) = (simplify items2 = Inl e)"
proof -
  from assms have "map_sum id (map fst) (simplify items1) = map_sum id (map fst) (simplify items2)"
    unfolding simplify_def by (rule simplify_items_keys) simp
  then show ?thesis by (cases "simplify items1"; cases "simplify items2") auto
qed

text \<open>
  Claim C3 as stated fails: registering a function with \<^verbatim>\<open>center_as_origin\<close> and
  \<^verbatim>\<open>overlapping\<close> true and the block shape (2, 2), whose dimensions are even, succeeds.
\<close>

theorem even_block_shape_registered:
  "\<not> isl (blockwise Map.empty [(Name ''a'', [2, 2])] [(Name ''a'', IntArray)] True True None
            \<lparr>func_name = ''f'', func_args = [''a'']\<rparr>)"
  by (simp add: blockwise_def simplify_def get_arg_type_def issubclass_def IntArray_def)

text \<open>
  Claim C3 as amended: registration does not look at the dimensions of the block shapes.
  Two registrations that differ only in the block shapes given to the same names fail
  alike, with the same error, or both succeed; so an even dimension does not abort
  registration. With \<^verbatim>\<open>center_as_origin\<close> true, registration fails at declaration time
  when \<^verbatim>\<open>overlapping\<close> is false.
\<close>

theorem registration_ignores_block_dimensions:
  assumes "map fst bshapes1 = map fst bshapes2"
  shows "((blockwise reg bshapes1 tps ovl center name f = Inl e)
          \<longleftrightarrow> (blockwise reg bshapes2 tps ovl center name f = Inl e))
       \<and> (center \<and> \<not> ovl \<longrightarrow> isl (blockwise reg bshapes1 tps ovl center name f))"
proof -
  have s: "\<And>e. (simplify bshapes1 = Inl e) = (simplify bshapes2 = Inl e)"
    using assms by (rule simplify_keys)
  have 1: "(blockwise reg bshapes1 tps ovl center name f = Inl e)
          \<longleftrightarrow> (blockwise reg bshapes2 tps ovl center name f = Inl e)"
  proof (cases "simplify bshapes1")
    case (Inl e1)
    with s [of e1] have "simplify bshapes2 = Inl e1" by simp
    with Inl show ?thesis by (simp add: blockwise_def)
  next
    case (Inr b1)
    with s obtain b2 where "simplify bshapes2 = Inr b2"
      by (cases "simplify bshapes2") auto
    with Inr show ?thesis
      by (simp add: blockwise_def Let_def split: sum.splits)
  qed
  have 2: "isl (blockwise reg bshapes1 tps ovl center name f)" if "center \<and> \<not> ovl"
    using that by (simp add: blockwise_def split: sum.splits)
  from 1 2 show ?thesis by blast
qed

theorem registration_ignores_block_dimensions_witness:
  "blockwise Map.empty [(Name ''a'', [2, 2])] [(Name ''a'', IntArray)] False True None
      \<lparr>func_name = ''f'', func_args = [''a'']\<rparr> = Inl InvalidConfiguration
   \<and> blockwise Map.empty [(Name ''a'', [3, 3])] [(Name ''a'', IntArray)] False True None
      \<lparr>func_name = ''f'', func_args = [''a'']\<rparr> = Inl InvalidConfiguration
   \<and> isl (blockwise Map.empty [(Name ''a'', [2, 2])] [(Name ''a'', IntArray)] False True None
      \<lparr>func_name = ''f'', func_args = [''a'']\<rparr>)"
proof -
  have k: "map fst [(Name ''a'', [2, 2 :: int])] = map fst [(Name ''a'', [3, 3 :: int])]"
    by simp
  have e: "blockwise Map.empty [(Name ''a'', [3, 3])] [(Name ''a'', IntArray)] False True None
      \<lparr>func_name = ''f'', func_args = [''a'']\<rparr> = Inl InvalidConfiguration"
    by (simp add: blockwise_def simplify_def)
  from registration_ignores_block_dimensions
         [OF k, of Map.empty "[(Name ''a'', IntArray)]" False True None
            "\<lparr>func_name = ''f'', func_args = [''a'']\<rparr>" InvalidConfiguration] e
  show ?thesis by simp
qed

end
